theory Spec2Isabelle
  imports Main
begin

section \<open>Python values, exceptions and text\<close>

text \<open>
  The data a JSON parser hands to a view: \<open>None\<close>, booleans, unbounded integers,
  strings, lists and dictionaries (in insertion order, keys unique). Numbers with a
  fraction or an exponent are not part of this model.
\<close>

datatype json =
    JNull
  | JBool bool
  | JInt int
  | JStr string
  | JArr "json list"
  | JObj "(string \<times> json) list"

text \<open>The exceptions the views meet; each carries the text \<open>str(e)\<close> gives.\<close>

datatype exn =
    ParseError string
  | AttributeError string
  | ValueError string
  | TypeError string
  | DoesNotExist string
  | AssertionError string

fun str_exn :: "exn \<Rightarrow> string" where
  "str_exn (ParseError m) = m"
| "str_exn (AttributeError m) = m"
| "str_exn (ValueError m) = m"
| "str_exn (TypeError m) = m"
| "str_exn (DoesNotExist m) = m"
| "str_exn (AssertionError m) = m"

text \<open>Python's truth value of an object: \<open>not x\<close> holds of the values mapped to False.\<close>

fun truthy :: "json \<Rightarrow> bool" where
  "truthy JNull = False"
| "truthy (JBool b) = b"
| "truthy (JInt n) = (n \<noteq> 0)"
| "truthy (JStr s) = (s \<noteq> [])"
| "truthy (JArr xs) = (xs \<noteq> [])"
| "truthy (JObj kvs) = (kvs \<noteq> [])"

fun type_name :: "json \<Rightarrow> string" where
  "type_name JNull = ''NoneType''"
| "type_name (JBool b) = ''bool''"
| "type_name (JInt n) = ''int''"
| "type_name (JStr s) = ''str''"
| "type_name (JArr xs) = ''list''"
| "type_name (JObj kvs) = ''dict''"

text \<open>
  \<open>d.get(key, default)\<close>: only a dictionary has the method, every other value raises
  AttributeError.
\<close>

definition dict_get :: "json \<Rightarrow> string \<Rightarrow> json \<Rightarrow> exn + json" where
  "dict_get d key dflt =
     (case d of
        JObj kvs \<Rightarrow> Inr (case map_of kvs key of None \<Rightarrow> dflt | Some v \<Rightarrow> v)
      | _ \<Rightarrow> Inl (AttributeError ([CHR 0x27] @ type_name d @ [CHR 0x27]
                 @ '' object has no attribute '' @ [CHR 0x27] @ ''get'' @ [CHR 0x27])))"

text \<open>\<open>d.get(key, default)\<close> on a dictionary known to be one (\<open>validated_data\<close>).\<close>

definition get_or :: "(string \<times> 'v) list \<Rightarrow> string \<Rightarrow> 'v \<Rightarrow> 'v" where
  "get_or d key dflt = (case map_of d key of None \<Rightarrow> dflt | Some v \<Rightarrow> v)"

fun str_nat :: "nat \<Rightarrow> string" where
  "str_nat n =
     (if n < 10 then [''0123456789'' ! n]
      else str_nat (n div 10) @ [''0123456789'' ! (n mod 10)])"

declare str_nat.simps [simp del]

definition str_int :: "int \<Rightarrow> string" where
  "str_int i = (if i < 0 then ''-'' @ str_nat (nat (- i)) else str_nat (nat i))"

definition intercalate :: "string \<Rightarrow> string list \<Rightarrow> string" where
  "intercalate sep xs =
     (case xs of [] \<Rightarrow> [] | y # ys \<Rightarrow> y @ concat (map (\<lambda>z. sep @ z) ys))"

text \<open>
  \<open>repr(x)\<close>. A string is put between single quotes as it is: the escapes Python adds
  for quotes, backslashes and control characters are not modelled.
\<close>

fun py_repr :: "json \<Rightarrow> string" where
  "py_repr JNull = ''None''"
| "py_repr (JBool b) = (if b then ''True'' else ''False'')"
| "py_repr (JInt n) = str_int n"
| "py_repr (JStr s) = [CHR 0x27] @ s @ [CHR 0x27]"
| "py_repr (JArr xs) = ''['' @ intercalate '', '' (map py_repr xs) @ '']''"
| "py_repr (JObj kvs) =
     ''{'' @ intercalate '', ''
        (map (\<lambda>(k, v). [CHR 0x27] @ k @ [CHR 0x27] @ '': '' @ py_repr v) kvs) @ ''}''"

text \<open>\<open>str(x)\<close>, which an f-string applies to the value it formats.\<close>

definition py_str :: "json \<Rightarrow> string" where
  "py_str v = (case v of JStr s \<Rightarrow> s | _ \<Rightarrow> py_repr v)"

text \<open>
  \<open>int(s)\<close> on a string: surrounding white space, an optional sign, then decimal
  digits, single underscores allowed between digits. White space and digits are the
  ASCII ones; those beyond ASCII are not modelled.
\<close>

definition is_space :: "char \<Rightarrow> bool" where
  "is_space c =
     (c \<in> set [CHR '' '', CHR 0x09, CHR 0x0A, CHR 0x0B, CHR 0x0C, CHR 0x0D,
                 CHR 0x1C, CHR 0x1D, CHR 0x1E, CHR 0x1F])"

definition strip :: "string \<Rightarrow> string" where
  "strip s = rev (dropWhile is_space (rev (dropWhile is_space s)))"

definition digit_val :: "char \<Rightarrow> nat option" where
  "digit_val c =
     (if c \<in> set ''0123456789'' then Some (of_char c - 48) else None)"

fun int_digits :: "bool \<Rightarrow> nat \<Rightarrow> string \<Rightarrow> nat option" where
  "int_digits after_digit acc [] = (if after_digit then Some acc else None)"
| "int_digits after_digit acc (c # cs) =
     (if c = CHR ''_'' then
        (if after_digit \<and> cs \<noteq> [] then int_digits False acc cs else None)
      else (case digit_val c of
              None \<Rightarrow> None
            | Some d \<Rightarrow> int_digits True (10 * acc + d) cs))"

definition py_int :: "string \<Rightarrow> int option" where
  "py_int s =
     (case strip s of
        [] \<Rightarrow> None
      | c # cs \<Rightarrow>
          if c = CHR ''-'' then map_option (\<lambda>n. - int n) (int_digits False 0 cs)
          else if c = CHR ''+'' then map_option int (int_digits False 0 cs)
          else map_option int (int_digits False 0 (c # cs)))"

section \<open>The store\<close>

text \<open>
  A table of the database: its rows by primary key, and the last key the store's
  sequence handed out. The storage engine itself is the framework's.
\<close>

record 'r table =
  rows :: "int \<rightharpoonup> 'r"
  last_id :: int

text \<open>
  The value of a lookup \<open>objects.get(id=v)\<close> is coerced to the integer key by
  \<open>int(v)\<close>; what cannot be coerced raises ValueError or TypeError. A lookup by
  \<open>None\<close> matches no row.
\<close>

definition expected_number :: "json \<Rightarrow> string" where
  "expected_number v =
     ''Field '' @ [CHR 0x27] @ ''id'' @ [CHR 0x27]
       @ '' expected a number but got '' @ py_repr v @ ''.''"

definition does_not_exist :: "string \<Rightarrow> exn" where
  "does_not_exist model = DoesNotExist (model @ '' matching query does not exist.'')"

fun as_pk :: "json \<Rightarrow> exn + int" where
  "as_pk (JInt n) = Inr n"
| "as_pk (JBool b) = Inr (if b then 1 else 0)"
| "as_pk (JStr s) =
     (case py_int s of
        Some n \<Rightarrow> Inr n
      | None \<Rightarrow> Inl (ValueError (expected_number (JStr s))))"
| "as_pk v = Inl (TypeError (expected_number v))"

definition objects_get :: "string \<Rightarrow> 'r table \<Rightarrow> json \<Rightarrow> exn + int \<times> 'r" where
  "objects_get model tbl v =
     (if v = JNull then Inl (does_not_exist model)
      else (case as_pk v of
              Inl e \<Rightarrow> Inl e
            | Inr n \<Rightarrow>
                (case rows tbl n of
                   None \<Rightarrow> Inl (does_not_exist model)
                 | Some r \<Rightarrow> Inr (n, r))))"

text \<open>\<open>instance.save()\<close> of a fetched instance writes its row back under its key.\<close>

definition save :: "int \<times> 'r \<Rightarrow> 'r table \<Rightarrow> 'r table" where
  "save instance tbl = tbl\<lparr>rows := (rows tbl)(fst instance \<mapsto> snd instance)\<rparr>"

text \<open>\<open>instance.delete()\<close>.\<close>

definition delete :: "int \<times> 'r \<Rightarrow> 'r table \<Rightarrow> 'r table" where
  "delete instance tbl = tbl\<lparr>rows := (rows tbl)(fst instance := None)\<rparr>"

text \<open>\<open>objects.create(...)\<close>: the store assigns the next key of its sequence.\<close>

definition objects_create :: "'r \<Rightarrow> 'r table \<Rightarrow> (int \<times> 'r) \<times> 'r table" where
  "objects_create r tbl =
     (let new_id = last_id tbl + 1
      in ((new_id, r), tbl\<lparr>rows := (rows tbl)(new_id \<mapsto> r), last_id := new_id\<rparr>))"

text \<open>\<open>objects.all()\<close>: every row of the table (a finite one), in key order.\<close>

definition objects_all :: "'r table \<Rightarrow> (int \<times> 'r) list" where
  "objects_all tbl =
     List.map_filter (\<lambda>i. map_option (Pair i) (rows tbl i))
       (sorted_list_of_set (dom (rows tbl)))"

section \<open>Requests and responses\<close>

text \<open>
  A request as the views read it: the verb, the query string's parameters, and what the
  framework's JSON parser makes of the body, the parsed data or the ParseError it raises.
\<close>

record request =
  "method" :: string
  query_params :: "(string \<times> string) list"
  parsed_body :: "exn + json"

datatype body = Json json | Text string | NoBody

record response =
  content :: body
  status :: nat

definition JsonResponse :: "json \<Rightarrow> nat \<Rightarrow> response" where
  "JsonResponse d code = \<lparr>content = Json d, status = code\<rparr>"

definition HttpResponse :: "body \<Rightarrow> nat \<Rightarrow> response" where
  "HttpResponse b code = \<lparr>content = b, status = code\<rparr>"

text \<open>The framework's \<open>Response(data, status)\<close>; its status defaults to 200.\<close>

definition Response :: "json \<Rightarrow> nat \<Rightarrow> response" where
  "Response d code = \<lparr>content = Json d, status = code\<rparr>"

definition msg :: "string \<Rightarrow> string \<times> json" where
  "msg s = (''msg'', JStr s)"

section \<open>Serializers: validation of the declared fields\<close>

text \<open>
  \<open>Serializer.is_valid()\<close> over declared fields. Each field is its name and the
  framework's validation of a supplied value (a list of messages, or the validated
  value). A field absent from the data is skipped when \<open>partial=True\<close> and reported
  as required otherwise. The result is \<open>errors\<close> or \<open>validated_data\<close>.
\<close>

type_synonym 'v field = "json \<Rightarrow> string list + 'v"

fun to_internal_value ::
  "bool \<Rightarrow> (string \<times> 'v field) list \<Rightarrow> (string \<times> json) list
     \<Rightarrow> (string \<times> json) list \<times> (string \<times> 'v) list" where
  "to_internal_value partial [] d = ([], [])"
| "to_internal_value partial ((f, validate) # fs) d =
     (let (errs, vals) = to_internal_value partial fs d
      in case map_of d f of
           None \<Rightarrow>
             if partial then (errs, vals)
             else ((f, JArr [JStr ''This field is required.'']) # errs, vals)
         | Some v \<Rightarrow>
             (case validate v of
                Inl msgs \<Rightarrow> ((f, JArr (map JStr msgs)) # errs, vals)
              | Inr x \<Rightarrow> (errs, (f, x) # vals)))"

definition non_field_errors :: "string \<Rightarrow> json" where
  "non_field_errors m = JObj [(''non_field_errors'', JArr [JStr m])]"

definition is_valid ::
  "bool \<Rightarrow> (string \<times> 'v field) list \<Rightarrow> json \<Rightarrow> json + (string \<times> 'v) list" where
  "is_valid partial flds d =
     (case d of
        JObj kvs \<Rightarrow>
          (let (errs, vals) = to_internal_value partial flds kvs
           in if errs = [] then Inr vals else Inl (JObj errs))
      | JNull \<Rightarrow> Inl (non_field_errors ''No data provided'')
      | _ \<Rightarrow> Inl (non_field_errors
                 (''Invalid data. Expected a dictionary, but got '' @ type_name d @ ''.'')))"

section \<open>The manual JSON update handler (deserializer/learnUpdate)\<close>

text \<open>
  The row \<open>EmployeesSerializer.update\<close> writes: the three attributes it assigns, and
  whatever else the table's rows hold (the record's extension).
\<close>

record employee =
  name :: string
  phone :: string
  city :: string

text \<open>
  The framework's \<open>CharField(max_length=n)\<close> on a supplied value: \<open>None\<close> is refused,
  a string or an integer is taken as text and stripped of surrounding white space,
  blank text is refused, then the validators of the field run (the length, the null
  character). Lengths count the characters of the model's strings.
\<close>

definition char_validators :: "nat \<Rightarrow> string \<Rightarrow> string list" where
  "char_validators max_length s =
     (if length s > max_length then
        [''Ensure this field has no more than '' @ str_nat max_length @ '' characters.'']
      else [])
     @ (if CHR 0x00 \<in> set s then [''Null characters are not allowed.''] else [])"

definition char_value :: "nat \<Rightarrow> string \<Rightarrow> string list + string" where
  "char_value max_length s =
     (if strip s = [] then Inl [''This field may not be blank.'']
      else if char_validators max_length (strip s) = [] then Inr (strip s)
      else Inl (char_validators max_length (strip s)))"

definition CharField :: "nat \<Rightarrow> string field" where
  "CharField max_length v =
     (case v of
        JNull \<Rightarrow> Inl [''This field may not be null.'']
      | JStr s \<Rightarrow> char_value max_length s
      | JInt n \<Rightarrow> char_value max_length (str_int n)
      | _ \<Rightarrow> Inl [''Not a valid string.''])"

text \<open>The fields \<open>EmployeesSerializer\<close> declares.\<close>

definition EmployeesSerializer_fields :: "(string \<times> string field) list" where
  "EmployeesSerializer_fields =
     [(''name'', CharField 50), (''phone'', CharField 15), (''city'', CharField 50)]"

definition EmployeesSerializer_update ::
  "int \<times> 'a employee_scheme \<Rightarrow> (string \<times> string) list \<Rightarrow> 'a employee_scheme table
     \<Rightarrow> (int \<times> 'a employee_scheme) \<times> 'a employee_scheme table" where
  "EmployeesSerializer_update instance validated_data tbl =
     (let r = snd instance;
          r = r\<lparr>name := get_or validated_data ''name'' (name r)\<rparr>;
          r = r\<lparr>phone := get_or validated_data ''phone'' (phone r)\<rparr>;
          r = r\<lparr>city := get_or validated_data ''city'' (city r)\<rparr>;
          instance = (fst instance, r)
      in (instance, save instance tbl))"

text \<open>The body of the \<open>try\<close> block: what it returns, or the exception it raises.\<close>

definition EmployeesWork_try ::
  "'a employee_scheme table \<Rightarrow> request \<Rightarrow> exn + response \<times> 'a employee_scheme table" where
  "EmployeesWork_try tbl request =
     (case parsed_body request of
        Inl e \<Rightarrow> Inl e
      | Inr updateData \<Rightarrow>
          (case dict_get updateData ''id'' JNull of
             Inl e \<Rightarrow> Inl e
           | Inr ident \<Rightarrow>
               if \<not> truthy ident then
                 Inr (JsonResponse (JObj [msg ''ID is required for update'']) 400, tbl)
               else
                 (case objects_get ''Employees'' tbl ident of
                    Inl (DoesNotExist m) \<Rightarrow>
                      Inr (JsonResponse
                             (JObj [msg (''Employee with id '' @ py_str ident @ '' not found'')])
                             404, tbl)
                  | Inl e \<Rightarrow> Inl e
                  | Inr instance \<Rightarrow>
                      (case is_valid True EmployeesSerializer_fields updateData of
                         Inr validated_data \<Rightarrow>
                           Inr (JsonResponse (JObj [msg ''Data Updated Successfully'']) 200,
                                snd (EmployeesSerializer_update instance validated_data tbl))
                       | Inl errors \<Rightarrow>
                           Inr (JsonResponse
                                  (JObj [msg ''Update unsuccessful'', (''errors'', errors)])
                                  400, tbl)))))"

definition EmployeesWork ::
  "'a employee_scheme table \<Rightarrow> request \<Rightarrow> response \<times> 'a employee_scheme table" where
  "EmployeesWork tbl request =
     (if method request = ''PUT'' then
        (case EmployeesWork_try tbl request of
           Inr result \<Rightarrow> result
         | Inl e \<Rightarrow>
             (JsonResponse
                (JObj [msg ''Something went wrong'', (''error'', JStr (str_exn e))]) 500, tbl))
      else (HttpResponse (Text ''Method Not Allowed'') 405, tbl))"

section \<open>Serializers declared outside the sources\<close>

text \<open>
  \<open>NotesSerializer\<close> and \<open>StudentSerializer\<close> are declared in serializer modules that
  are not among the sources. The views use four things of such a class, taken here as
  parameters: \<open>is_valid()\<close> (the \<open>errors\<close> or the \<open>validated_data\<close>), the row
  \<open>save()\<close> creates, the row \<open>save()\<close> makes of an existing one, and \<open>.data\<close>
  of an instance.
\<close>

record ('r, 'v) serializer =
  validate :: "json \<Rightarrow> json + 'v"
  create :: "'v \<Rightarrow> 'r"
  update :: "'r \<Rightarrow> 'v \<Rightarrow> 'r"
  to_representation :: "int \<times> 'r \<Rightarrow> json"

section \<open>The function-based dispatcher (functionBasedApi/myapi)\<close>

text \<open>
  \<open>request.query_params.get(key, default)\<close>: the last value given for the key in the
  query string (a string), the default when the key is absent.
\<close>

definition query_get :: "(string \<times> string) list \<Rightarrow> string \<Rightarrow> json \<Rightarrow> json" where
  "query_get q key dflt = (case map_of (rev q) key of None \<Rightarrow> dflt | Some s \<Rightarrow> JStr s)"

text \<open>The view's argument \<open>id\<close>: the integer of the path \<open>notes/<int:id>/\<close>, or \<open>None\<close>.\<close>

definition path_value :: "int option \<Rightarrow> json" where
  "path_value path_id = (case path_id of None \<Rightarrow> JNull | Some n \<Rightarrow> JInt n)"

text \<open>
  The function \<open>notesApi\<close> as written, without its decorator: the response it returns
  (\<open>None\<close> when no branch is taken) with the table after it, or the exception that leaves
  it. The decorated view is \<open>notesApi_view\<close> below.
\<close>

definition notesApi ::
  "('r, 'v) serializer \<Rightarrow> 'r table \<Rightarrow> request \<Rightarrow> int option
     \<Rightarrow> exn + response option \<times> 'r table" where
  "notesApi NotesSerializer tbl request path_id =
     (if method request = ''GET'' then
        (let pk = query_get (query_params request) ''id'' (path_value path_id)
         in if pk \<noteq> JNull then
              (case objects_get ''Notes'' tbl pk of
                 Inl (DoesNotExist m) \<Rightarrow>
                   Inr (Some (Response (JObj [msg ''Note not found'']) 404), tbl)
               | Inl e \<Rightarrow> Inl e
               | Inr note \<Rightarrow>
                   Inr (Some (Response
                          (JObj [(''data'', to_representation NotesSerializer note),
                                 msg ''Note retrieved'']) 200), tbl))
            else
              Inr (Some (Response
                     (JObj [(''data'', JArr (map (to_representation NotesSerializer)
                                             (objects_all tbl))),
                            msg ''All notes retrieved'']) 200), tbl))
      else if method request = ''POST'' then
        (case parsed_body request of
           Inl e \<Rightarrow> Inl e
         | Inr myData \<Rightarrow>
             (case validate NotesSerializer myData of
                Inr validated_data \<Rightarrow>
                  Inr (Some (Response (JObj [msg ''Data is inserted successfully'']) 200),
                       snd (objects_create (create NotesSerializer validated_data) tbl))
              | Inl errors \<Rightarrow>
                  Inr (Some (Response
                         (JObj [(''error'', errors), msg ''Data insertion unsuccessfull''])
                         400), tbl)))
      else if method request = ''PUT'' then
        (case parsed_body request of
           Inl e \<Rightarrow> Inl e
         | Inr d \<Rightarrow>
             (case dict_get d ''id'' JNull of
                Inl e \<Rightarrow> Inl e
              | Inr pk \<Rightarrow>
                  if pk \<noteq> JNull then
                    (case objects_get ''Notes'' tbl pk of
                       Inl (DoesNotExist m) \<Rightarrow>
                         Inr (Some (Response (JObj [msg ''Note not found'']) 404), tbl)
                     | Inl e \<Rightarrow> Inl e
                     | Inr note \<Rightarrow>
                         (case validate NotesSerializer d of
                            Inr validated_data \<Rightarrow>
                              Inr (Some (Response (JObj [msg ''Note updated succesfully'']) 202),
                                   save (fst note,
                                         update NotesSerializer (snd note) validated_data) tbl)
                          | Inl errors \<Rightarrow>
                              Inr (Some (Response
                                     (JObj [(''error'', errors),
                                            msg ''Note update unsuccessfull'']) 400), tbl)))
                  else
                    Inr (Some (Response
                           (JObj [msg ''ID is required for update operation'']) 400), tbl)))
      else if method request = ''DELETE'' then
        (let pk = query_get (query_params request) ''id'' (path_value path_id)
         in if pk \<noteq> JNull then
              (case objects_get ''Notes'' tbl pk of
                 Inl (DoesNotExist m) \<Rightarrow>
                   Inr (Some (Response (JObj [msg ''Note not found'']) 404), tbl)
               | Inl e \<Rightarrow> Inl e
               | Inr note \<Rightarrow>
                   Inr (Some (Response (JObj [msg ''Note deleted successfully'']) 204),
                        delete note tbl))
            else
              Inr (Some (Response
                     (JObj [msg ''ID is required for deelete operation'']) 400), tbl))
      else Inr (None, tbl))"




section \<open>The deserializing view (deserializer/learn1)\<close>

text \<open>\<open>JSONRenderer().render(d)\<close>: the JSON text of \<open>d\<close>, kept as the data it renders.\<close>

definition JSONRenderer_render :: "json \<Rightarrow> body" where
  "JSONRenderer_render d = Json d"

text \<open>An \<open>HttpResponse\<close> given no status has status 200.\<close>

definition student_list ::
  "('r, 'v) serializer \<Rightarrow> 'r table \<Rightarrow> request \<Rightarrow> exn + response \<times> 'r table" where
  "student_list StudentSerializer tbl req =
     (if method req = ''POST'' then
        (case parsed_body req of
           Inl e \<Rightarrow> Inl e
         | Inr python_data \<Rightarrow>
             (case validate StudentSerializer python_data of
                Inr validated_data \<Rightarrow>
                  Inr (HttpResponse
                         (JSONRenderer_render (JObj [msg ''Data inserted Successfully''])) 200,
                       snd (objects_create (create StudentSerializer validated_data) tbl))
              | Inl errors \<Rightarrow>
                  Inr (HttpResponse (JSONRenderer_render errors) 200, tbl)))
      else Inr (JsonResponse (JObj [msg ''Only POST allowed'']) 405, tbl))"

section \<open>The generic views (GenericApiView/myApi)\<close>

text \<open>The model's row, as models.py declares it; \<open>salary\<close> defaults to 10000.\<close>

record Employees =
  name :: string
  age :: int
  salary :: int

text \<open>\<open>validated_data\<close> of the model's serializer: the fields that were supplied.\<close>

record Employees_data =
  d_name :: "string option"
  d_age :: "int option"
  d_salary :: "int option"

text \<open>
  A field of a given type: required or not, applied to the value the data holds for it
  (if any); the messages of the failure, or the value when one was supplied.
\<close>

fun str_field :: "bool \<Rightarrow> json option \<Rightarrow> string list + string option" where
  "str_field required None =
     (if required then Inl [''This field is required.''] else Inr None)"
| "str_field required (Some (JStr s)) = Inr (Some s)"
| "str_field required (Some v) = Inl [''Not a valid string.'']"

fun int_field :: "bool \<Rightarrow> json option \<Rightarrow> string list + int option" where
  "int_field required None =
     (if required then Inl [''This field is required.''] else Inr None)"
| "int_field required (Some (JInt n)) = Inr (Some n)"
| "int_field required (Some v) = Inl [''A valid integer is required.'']"

fun bool_field :: "bool \<Rightarrow> json option \<Rightarrow> string list + bool option" where
  "bool_field required None =
     (if required then Inl [''This field is required.''] else Inr None)"
| "bool_field required (Some (JBool b)) = Inr (Some b)"
| "bool_field required (Some v) = Inl [''Must be a valid boolean.'']"

definition field_error :: "string \<Rightarrow> string list + 'a \<Rightarrow> (string \<times> json) list" where
  "field_error f r = (case r of Inl msgs \<Rightarrow> [(f, JArr (map JStr msgs))] | Inr x \<Rightarrow> [])"

definition invalid_data :: "json \<Rightarrow> json" where
  "invalid_data d =
     non_field_errors
       (''Invalid data. Expected a dictionary, but got '' @ type_name d @ ''.'')"

text \<open>
  Modelled from the spec: \<open>EmployeesSerializer\<close> of GenericApiView/myApi/serializers.py,
  which is not among the sources. The spec's data model gives the DTO of an Employee the
  fields name (text), age (integer) and salary (integer, default 10000) besides the
  identity; a payload is validated for field presence and type; a partial update
  validates only the supplied fields and replaces only those.
\<close>

definition Employees_validate :: "bool \<Rightarrow> json \<Rightarrow> json + Employees_data" where
  "Employees_validate partial d =
     (case d of
        JObj kvs \<Rightarrow>
          (let n = str_field (\<not> partial) (map_of kvs ''name'');
               a = int_field (\<not> partial) (map_of kvs ''age'');
               s = int_field False (map_of kvs ''salary'')
           in case (n, a, s) of
                (Inr vn, Inr va, Inr vs) \<Rightarrow> Inr \<lparr>d_name = vn, d_age = va, d_salary = vs\<rparr>
              | _ \<Rightarrow> Inl (JObj (field_error ''name'' n @ field_error ''age'' a
                                 @ field_error ''salary'' s)))
      | _ \<Rightarrow> Inl (invalid_data d))"

definition Employees_create :: "Employees_data \<Rightarrow> Employees" where
  "Employees_create v =
     \<lparr>name = (case d_name v of Some s \<Rightarrow> s | None \<Rightarrow> []),
      age = (case d_age v of Some n \<Rightarrow> n | None \<Rightarrow> 0),
      salary = (case d_salary v of Some n \<Rightarrow> n | None \<Rightarrow> 10000)\<rparr>"

definition Employees_update :: "Employees \<Rightarrow> Employees_data \<Rightarrow> Employees" where
  "Employees_update r v =
     r\<lparr>name := (case d_name v of Some s \<Rightarrow> s | None \<Rightarrow> name r),
       age := (case d_age v of Some n \<Rightarrow> n | None \<Rightarrow> age r),
       salary := (case d_salary v of Some n \<Rightarrow> n | None \<Rightarrow> salary r)\<rparr>"

definition Employees_representation :: "int \<times> Employees \<Rightarrow> json" where
  "Employees_representation instance =
     JObj [(''id'', JInt (fst instance)),
           (''name'', JStr (name (snd instance))),
           (''age'', JInt (age (snd instance))),
           (''salary'', JInt (salary (snd instance)))]"

definition EmployeesSerializer :: "bool \<Rightarrow> (Employees, Employees_data) serializer" where
  "EmployeesSerializer partial =
     \<lparr>validate = Employees_validate partial,
      create = Employees_create,
      update = Employees_update,
      to_representation = Employees_representation\<rparr>"

text \<open>
  Modelled from the spec: the framework's mixins the views delegate to
  (\<open>CreateModelMixin.create\<close>, \<open>RetrieveModelMixin.retrieve\<close>,
  \<open>UpdateModelMixin.update\<close> and \<open>partial_update\<close>, \<open>DestroyModelMixin.destroy\<close>),
  which are not part of the sources. POST validates the payload, persists a new record
  and returns the created DTO with its assigned identity (201), or the field errors
  (400). Every item operation first resolves the identity to a record and reports its
  absence as not found (404); GET returns the DTO, PUT and PATCH the updated DTO (200) or
  the field errors (400), DELETE removes the record and returns an empty 204. A body the
  parser refuses is a client error (400).
\<close>

definition not_found :: response where
  "not_found = Response (JObj [(''detail'', JStr ''Not found.'')]) 404"

definition bad_request :: "exn \<Rightarrow> response" where
  "bad_request e = Response (JObj [(''detail'', JStr (str_exn e))]) 400"

definition CreateModelMixin_create ::
  "(bool \<Rightarrow> ('r, 'v) serializer) \<Rightarrow> 'r table \<Rightarrow> request \<Rightarrow> response \<times> 'r table" where
  "CreateModelMixin_create serializer_class tbl request =
     (case parsed_body request of
        Inl e \<Rightarrow> (bad_request e, tbl)
      | Inr d \<Rightarrow>
          (case validate (serializer_class False) d of
             Inl errors \<Rightarrow> (Response errors 400, tbl)
           | Inr validated_data \<Rightarrow>
               (let created = objects_create (create (serializer_class False) validated_data) tbl
                in (Response (to_representation (serializer_class False) (fst created)) 201,
                    snd created))))"

definition RetrieveModelMixin_retrieve ::
  "(bool \<Rightarrow> ('r, 'v) serializer) \<Rightarrow> 'r table \<Rightarrow> int \<Rightarrow> response \<times> 'r table" where
  "RetrieveModelMixin_retrieve serializer_class tbl pk =
     (case rows tbl pk of
        None \<Rightarrow> (not_found, tbl)
      | Some r \<Rightarrow> (Response (to_representation (serializer_class False) (pk, r)) 200, tbl))"

definition UpdateModelMixin_update ::
  "bool \<Rightarrow> (bool \<Rightarrow> ('r, 'v) serializer) \<Rightarrow> 'r table \<Rightarrow> request \<Rightarrow> int
     \<Rightarrow> response \<times> 'r table" where
  "UpdateModelMixin_update partial serializer_class tbl request pk =
     (case rows tbl pk of
        None \<Rightarrow> (not_found, tbl)
      | Some r \<Rightarrow>
          (case parsed_body request of
             Inl e \<Rightarrow> (bad_request e, tbl)
           | Inr d \<Rightarrow>
               (case validate (serializer_class partial) d of
                  Inl errors \<Rightarrow> (Response errors 400, tbl)
                | Inr validated_data \<Rightarrow>
                    (let instance = (pk, update (serializer_class partial) r validated_data)
                     in (Response (to_representation (serializer_class partial) instance) 200,
                         save instance tbl)))))"

definition UpdateModelMixin_partial_update ::
  "(bool \<Rightarrow> ('r, 'v) serializer) \<Rightarrow> 'r table \<Rightarrow> request \<Rightarrow> int \<Rightarrow> response \<times> 'r table" where
  "UpdateModelMixin_partial_update serializer_class tbl request pk =
     UpdateModelMixin_update True serializer_class tbl request pk"


text \<open>The views of views.py: each verb delegates to its mixin.\<close>

definition EmployeesList_post :: "Employees table \<Rightarrow> request \<Rightarrow> response \<times> Employees table" where
  "EmployeesList_post tbl request = CreateModelMixin_create EmployeesSerializer tbl request"

definition EmployeesManipulation_get ::
  "Employees table \<Rightarrow> request \<Rightarrow> int \<Rightarrow> response \<times> Employees table" where
  "EmployeesManipulation_get tbl request pk =
     RetrieveModelMixin_retrieve EmployeesSerializer tbl pk"

definition EmployeesManipulation_put ::
  "Employees table \<Rightarrow> request \<Rightarrow> int \<Rightarrow> response \<times> Employees table" where
  "EmployeesManipulation_put tbl request pk =
     UpdateModelMixin_update False EmployeesSerializer tbl request pk"

definition EmployeesManipulation_patch ::
  "Employees table \<Rightarrow> request \<Rightarrow> int \<Rightarrow> response \<times> Employees table" where
  "EmployeesManipulation_patch tbl request pk =
     UpdateModelMixin_partial_update EmployeesSerializer tbl request pk"


section \<open>Sample serializers for evaluation\<close>

text \<open>
  Modelled from the spec: \<open>NotesSerializer\<close> (functionBasedApi/myapi/serializers.py, not
  among the sources). A note has a title (text) and a completed flag (boolean); its
  \<open>created_at\<close> is assigned when the row is created, here the given time.
\<close>

record Notes =
  title :: string
  completed :: bool
  created_at :: string

definition Notes_validate :: "json \<Rightarrow> json + string \<times> bool" where
  "Notes_validate d =
     (case d of
        JObj kvs \<Rightarrow>
          (let t = str_field True (map_of kvs ''title'');
               c = bool_field True (map_of kvs ''completed'')
           in case (t, c) of
                (Inr (Some vt), Inr (Some vc)) \<Rightarrow> Inr (vt, vc)
              | _ \<Rightarrow> Inl (JObj (field_error ''title'' t @ field_error ''completed'' c)))
      | _ \<Rightarrow> Inl (invalid_data d))"

definition NotesSerializer :: "string \<Rightarrow> (Notes, string \<times> bool) serializer" where
  "NotesSerializer now =
     \<lparr>validate = Notes_validate,
      create = (\<lambda>v. \<lparr>title = fst v, completed = snd v, created_at = now\<rparr>),
      update = (\<lambda>r v. r\<lparr>title := fst v, completed := snd v\<rparr>),
      to_representation =
        (\<lambda>instance. JObj [(''id'', JInt (fst instance)),
                          (''title'', JStr (title (snd instance))),
                          (''completed'', JBool (completed (snd instance))),
                          (''created_at'', JStr (created_at (snd instance)))])\<rparr>"

text \<open>
  Modelled from the spec: \<open>StudentSerializer\<close> (deserializer/learn1/seerializers.py, not
  among the sources), with the fields the client script extApp1.py posts: name, roll,
  city, all required. A row is the triple of the three.
\<close>

definition Student_validate :: "json \<Rightarrow> json + string \<times> int \<times> string" where
  "Student_validate d =
     (case d of
        JObj kvs \<Rightarrow>
          (let n = str_field True (map_of kvs ''name'');
               r = int_field True (map_of kvs ''roll'');
               c = str_field True (map_of kvs ''city'')
           in case (n, r, c) of
                (Inr (Some vn), Inr (Some vr), Inr (Some vc)) \<Rightarrow> Inr (vn, vr, vc)
              | _ \<Rightarrow> Inl (JObj (field_error ''name'' n @ field_error ''roll'' r
                                 @ field_error ''city'' c)))
      | _ \<Rightarrow> Inl (invalid_data d))"

definition StudentSerializer ::
  "(string \<times> int \<times> string, string \<times> int \<times> string) serializer" where
  "StudentSerializer =
     \<lparr>validate = Student_validate,
      create = (\<lambda>v. v),
      update = (\<lambda>r v. v),
      to_representation =
        (\<lambda>instance. JObj [(''name'', JStr (fst (snd instance))),
                          (''roll'', JInt (fst (snd (snd instance)))),
                          (''city'', JStr (snd (snd (snd instance))))])\<rparr>"

section \<open>Terms of the statements\<close>

text \<open>What \<open>d.get('id')\<close> gives on a dictionary with the items \<open>kvs\<close>.\<close>

definition id_of :: "(string \<times> json) list \<Rightarrow> json" where
  "id_of kvs = (case map_of kvs ''id'' of None \<Rightarrow> JNull | Some v \<Rightarrow> v)"

text \<open>A field is supplied when the request payload, a dictionary, has an item for it.\<close>

definition supplied :: "request \<Rightarrow> string \<Rightarrow> bool" where
  "supplied request f =
     (case parsed_body request of
        Inr (JObj kvs) \<Rightarrow> map_of kvs f \<noteq> None
      | _ \<Rightarrow> False)"

text \<open>
  The row \<open>r'\<close> keeps from \<open>r\<close> every field the payload does not supply (for the rows
  of the manual handler, and for the rows of the generic views).
\<close>

definition employee_kept ::
  "request \<Rightarrow> 'a employee_scheme \<Rightarrow> 'a employee_scheme \<Rightarrow> bool" where
  "employee_kept request r r' =
     ((\<not> supplied request ''name'' \<longrightarrow> employee.name r' = employee.name r)
      \<and> (\<not> supplied request ''phone'' \<longrightarrow> phone r' = phone r)
      \<and> (\<not> supplied request ''city'' \<longrightarrow> city r' = city r)
      \<and> employee.more r' = employee.more r)"

definition Employees_kept :: "request \<Rightarrow> Employees \<Rightarrow> Employees \<Rightarrow> bool" where
  "Employees_kept request r r' =
     ((\<not> supplied request ''name'' \<longrightarrow> name r' = name r)
      \<and> (\<not> supplied request ''age'' \<longrightarrow> age r' = age r)
      \<and> (\<not> supplied request ''salary'' \<longrightarrow> salary r' = salary r))"

section \<open>The store and the serializer's validation\<close>


lemma to_internal_value_keys:
  "map_of d f = None \<Longrightarrow> map_of (snd (to_internal_value partial fs d)) f = None"
  by (induction fs) (auto split: prod.splits option.splits sum.splits if_splits)

lemma is_valid_keys:
  "is_valid partial fs (JObj kvs) = Inr vd \<Longrightarrow> map_of kvs f = None \<Longrightarrow> map_of vd f = None"
  using to_internal_value_keys[of kvs f partial fs]
  by (auto simp: is_valid_def split: prod.splits if_splits)

lemma as_pk_error:
  "as_pk v = Inl e \<Longrightarrow> (\<exists>m. e = ValueError m) \<or> (\<exists>m. e = TypeError m)"
  by (cases v) (auto split: option.splits)

lemma truthy_not_null: "truthy v \<Longrightarrow> v \<noteq> JNull"
  by auto

lemma objects_get_error:
  "as_pk v = Inl e \<Longrightarrow> v \<noteq> JNull \<Longrightarrow> objects_get model tbl v = Inl e"
  by (simp add: objects_get_def)

lemma objects_get_missing:
  "as_pk v = Inr n \<Longrightarrow> rows tbl n = None \<Longrightarrow> objects_get model tbl v = Inl (does_not_exist model)"
  by (simp add: objects_get_def)

lemma objects_get_found:
  "as_pk v = Inr n \<Longrightarrow> rows tbl n = Some r \<Longrightarrow> objects_get model tbl v = Inr (n, r)"
  by (cases v) (simp_all add: objects_get_def)


lemma try_parse_error:
  "parsed_body request = Inl e \<Longrightarrow> EmployeesWork_try tbl request = Inl e"
  by (simp add: EmployeesWork_try_def)

lemma try_falsy:
  "parsed_body request = Inr (JObj kvs) \<Longrightarrow> \<not> truthy (id_of kvs) \<Longrightarrow>
   EmployeesWork_try tbl request
     = Inr (JsonResponse (JObj [msg ''ID is required for update'']) 400, tbl)"
  by (simp add: EmployeesWork_try_def dict_get_def id_of_def)

lemma try_get_error:
  "parsed_body request = Inr (JObj kvs) \<Longrightarrow> truthy (id_of kvs) \<Longrightarrow> as_pk (id_of kvs) = Inl e \<Longrightarrow>
   EmployeesWork_try tbl request = Inl e"
  using as_pk_error[of "id_of kvs" e] objects_get_error[of "id_of kvs" e "''Employees''" tbl]
    truthy_not_null[of "id_of kvs"]
  by (auto simp add: EmployeesWork_try_def dict_get_def id_of_def)

lemma try_missing:
  "parsed_body request = Inr (JObj kvs) \<Longrightarrow> truthy (id_of kvs) \<Longrightarrow> as_pk (id_of kvs) = Inr n \<Longrightarrow>
   rows tbl n = None \<Longrightarrow>
   EmployeesWork_try tbl request
     = Inr (JsonResponse (JObj [msg (''Employee with id '' @ py_str (id_of kvs) @ '' not found'')]) 404, tbl)"
  using objects_get_missing[of "id_of kvs" n tbl "''Employees''"]
  by (simp add: EmployeesWork_try_def dict_get_def id_of_def does_not_exist_def)

lemma try_found:
  "parsed_body request = Inr (JObj kvs) \<Longrightarrow> truthy (id_of kvs) \<Longrightarrow> as_pk (id_of kvs) = Inr n \<Longrightarrow>
   rows tbl n = Some r \<Longrightarrow>
   EmployeesWork_try tbl request
     = (case is_valid True EmployeesSerializer_fields (JObj kvs) of
          Inr validated_data \<Rightarrow>
            Inr (JsonResponse (JObj [msg ''Data Updated Successfully'']) 200,
                 snd (EmployeesSerializer_update (n, r) validated_data tbl))
        | Inl errors \<Rightarrow>
            Inr (JsonResponse (JObj [msg ''Update unsuccessful'', (''errors'', errors)]) 400, tbl))"
  using objects_get_found[of "id_of kvs" n tbl r "''Employees''"]
  by (simp add: EmployeesWork_try_def dict_get_def id_of_def)

lemma try_not_dict:
  "parsed_body request = Inr d \<Longrightarrow> \<forall>kvs. d \<noteq> JObj kvs \<Longrightarrow>
   \<exists>m. EmployeesWork_try tbl request = Inl (AttributeError m)"
  by (cases d) (simp_all add: EmployeesWork_try_def dict_get_def)

lemma EmployeesWork_put:
  "method request = ''PUT'' \<Longrightarrow>
   EmployeesWork tbl request =
     (case EmployeesWork_try tbl request of
        Inr result \<Rightarrow> result
      | Inl e \<Rightarrow>
          (JsonResponse (JObj [msg ''Something went wrong'', (''error'', JStr (str_exn e))]) 500,
           tbl))"
  by (simp add: EmployeesWork_def)

lemma EmployeesWork_cases:
  "snd (EmployeesWork tbl request) = tbl \<or>
   (\<exists>kvs n r vd.
       method request = ''PUT'' \<and> parsed_body request = Inr (JObj kvs) \<and>
       truthy (id_of kvs) \<and> as_pk (id_of kvs) = Inr n \<and> rows tbl n = Some r \<and>
       is_valid True EmployeesSerializer_fields (JObj kvs) = Inr vd \<and>
       EmployeesWork tbl request
         = (JsonResponse (JObj [msg ''Data Updated Successfully'']) 200,
            snd (EmployeesSerializer_update (n, r) vd tbl)))"
proof (cases "method request = ''PUT''")
  case False
  then show ?thesis by (simp add: EmployeesWork_def)
next
  case put: True
  show ?thesis
  proof (cases "parsed_body request")
    case (Inl e)
    then show ?thesis using put by (simp add: EmployeesWork_put try_parse_error)
  next
    case (Inr d)
    show ?thesis
    proof (cases "\<exists>kvs. d = JObj kvs")
      case False
      then obtain m where "EmployeesWork_try tbl request = Inl (AttributeError m)"
        using try_not_dict[OF Inr] by blast
      then show ?thesis using put by (simp add: EmployeesWork_put)
    next
      case True
      then obtain kvs where d: "parsed_body request = Inr (JObj kvs)" using Inr by blast
      show ?thesis
      proof (cases "truthy (id_of kvs)")
        case False
        then show ?thesis using put d by (simp add: EmployeesWork_put try_falsy)
      next
        case t: True
        show ?thesis
        proof (cases "as_pk (id_of kvs)")
          case (Inl e)
          then show ?thesis using put d t by (simp add: EmployeesWork_put try_get_error)
        next
          case n: (Inr n)
          show ?thesis
          proof (cases "rows tbl n")
            case None
            then show ?thesis using put d t n by (simp add: EmployeesWork_put try_missing)
          next
            case (Some r)
            show ?thesis
            proof (cases "is_valid True EmployeesSerializer_fields (JObj kvs)")
              case (Inl errors)
              then show ?thesis using put d t n Some
                by (simp add: EmployeesWork_put try_found)
            next
              case (Inr vd)
              then have "EmployeesWork tbl request
                = (JsonResponse (JObj [msg ''Data Updated Successfully'']) 200,
                   snd (EmployeesSerializer_update (n, r) vd tbl))"
                using put d t n Some by (simp add: EmployeesWork_put try_found)
              then show ?thesis using put d t n Some Inr by blast
            qed
          qed
        qed
      qed
    qed
  qed
qed

lemma update_rows:
  "rows (snd (EmployeesSerializer_update (n, r) vd tbl)) =
     (rows tbl)(n \<mapsto> r\<lparr>employee.name := get_or vd ''name'' (employee.name r),
                        phone := get_or vd ''phone'' (phone r),
                        city := get_or vd ''city'' (city r)\<rparr>)"
  by (simp add: EmployeesSerializer_update_def save_def Let_def)

lemma update_last_id:
  "last_id (snd (EmployeesSerializer_update (n, r) vd tbl)) = last_id tbl"
  by (simp add: EmployeesSerializer_update_def save_def Let_def)

lemma get_or_absent: "map_of d f = None \<Longrightarrow> get_or d f x = x"
  by (simp add: get_or_def)

lemma employee_kept_refl: "employee_kept request r r"
  by (simp add: employee_kept_def)

lemma rel_option_refl: "(\<And>x. R x x) \<Longrightarrow> rel_option R a a"
  by (cases a) simp_all

lemma EmployeesWork_frame:
  "rel_option (employee_kept request) (rows tbl i) (rows (snd (EmployeesWork tbl request)) i)
   \<and> last_id (snd (EmployeesWork tbl request)) = last_id tbl"
proof -
  consider (same) "snd (EmployeesWork tbl request) = tbl"
    | (upd) kvs n r vd where "parsed_body request = Inr (JObj kvs)" "rows tbl n = Some r"
        "is_valid True EmployeesSerializer_fields (JObj kvs) = Inr vd"
        "snd (EmployeesWork tbl request) = snd (EmployeesSerializer_update (n, r) vd tbl)"
    using EmployeesWork_cases[of tbl request] by fastforce
  then show ?thesis
  proof cases
    case same
    then show ?thesis by (simp add: rel_option_refl employee_kept_refl)
  next
    case upd
    have k: "\<And>f. \<not> supplied request f \<Longrightarrow> map_of vd f = None"
      using is_valid_keys[OF upd(3)] upd(1) by (simp add: supplied_def)
    show ?thesis
    proof (cases "i = n")
      case True
      then show ?thesis using upd k
        by (simp add: update_rows update_last_id employee_kept_def get_or_absent)
    next
      case False
      then show ?thesis using upd
        by (simp add: update_rows update_last_id rel_option_refl employee_kept_refl)
    qed
  qed
qed

lemma Employees_validate_keys:
  assumes "Employees_validate True (JObj kvs) = Inr v"
  shows "(map_of kvs ''name'' = None \<longrightarrow> d_name v = None)
       \<and> (map_of kvs ''age'' = None \<longrightarrow> d_age v = None)
       \<and> (map_of kvs ''salary'' = None \<longrightarrow> d_salary v = None)"
  using assms
  by (auto simp: Employees_validate_def Let_def split: sum.splits)

lemma patch_cases:
  "snd (EmployeesManipulation_patch tbl request pk) = tbl \<or>
   (\<exists>kvs r v. parsed_body request = Inr (JObj kvs) \<and> rows tbl pk = Some r \<and>
      Employees_validate True (JObj kvs) = Inr v \<and>
      snd (EmployeesManipulation_patch tbl request pk) = save (pk, Employees_update r v) tbl)"
proof (cases "rows tbl pk")
  case None
  then show ?thesis
    by (simp add: EmployeesManipulation_patch_def UpdateModelMixin_partial_update_def
        UpdateModelMixin_update_def)
next
  case (Some r)
  show ?thesis
  proof (cases "parsed_body request")
    case (Inl e)
    then show ?thesis using Some
      by (simp add: EmployeesManipulation_patch_def UpdateModelMixin_partial_update_def
          UpdateModelMixin_update_def)
  next
    case (Inr d)
    show ?thesis
    proof (cases "Employees_validate True d")
      case (Inl errors)
      then show ?thesis using Some Inr
        by (simp add: EmployeesManipulation_patch_def UpdateModelMixin_partial_update_def
            UpdateModelMixin_update_def EmployeesSerializer_def)
    next
      case v: (Inr v)
      then obtain kvs where "d = JObj kvs"
        by (cases d) (simp_all add: Employees_validate_def)
      then show ?thesis using Some Inr v
        by (simp add: EmployeesManipulation_patch_def UpdateModelMixin_partial_update_def
            UpdateModelMixin_update_def EmployeesSerializer_def Let_def)
    qed
  qed
qed

lemma patch_frame:
  "rel_option (Employees_kept request) (rows tbl i)
     (rows (snd (EmployeesManipulation_patch tbl request pk)) i)
   \<and> last_id (snd (EmployeesManipulation_patch tbl request pk)) = last_id tbl"
proof -
  have refl: "\<And>x. Employees_kept request x x" by (simp add: Employees_kept_def)
  consider (same) "snd (EmployeesManipulation_patch tbl request pk) = tbl"
    | (upd) kvs r v where "parsed_body request = Inr (JObj kvs)" "rows tbl pk = Some r"
        "Employees_validate True (JObj kvs) = Inr v"
        "snd (EmployeesManipulation_patch tbl request pk) = save (pk, Employees_update r v) tbl"
    using patch_cases[of tbl request pk] by fastforce
  then show ?thesis
  proof cases
    case same
    then show ?thesis by (simp add: rel_option_refl refl)
  next
    case upd
    show ?thesis
    proof (cases "i = pk")
      case True
      then show ?thesis using upd Employees_validate_keys[OF upd(3)]
        by (simp add: save_def Employees_kept_def Employees_update_def supplied_def)
    next
      case False
      then show ?thesis using upd by (simp add: save_def rel_option_refl refl)
    qed
  qed
qed

section \<open>The branches of the dispatcher and of the generic views\<close>








lemma notes_post:
  "method request = ''POST'' \<Longrightarrow> parsed_body request = Inr d \<Longrightarrow>
   notesApi ser tbl request path_id
     = (case validate ser d of
          Inr validated_data \<Rightarrow>
            Inr (Some (Response (JObj [msg ''Data is inserted successfully'']) 200),
                 snd (objects_create (create ser validated_data) tbl))
        | Inl errors \<Rightarrow>
            Inr (Some (Response (JObj [(''error'', errors),
                                       msg ''Data insertion unsuccessfull'']) 400), tbl))"
  by (simp add: notesApi_def)









lemma student_post:
  "method request = ''POST'' \<Longrightarrow> parsed_body request = Inr d \<Longrightarrow>
   student_list ser tbl request
     = (case validate ser d of
          Inr validated_data \<Rightarrow>
            Inr (HttpResponse (Json (JObj [msg ''Data inserted Successfully''])) 200,
                 snd (objects_create (create ser validated_data) tbl))
        | Inl errors \<Rightarrow> Inr (HttpResponse (Json errors) 200, tbl))"
  by (cases "validate ser d") (simp_all add: student_list_def JSONRenderer_render_def)

lemma list_post:
  "parsed_body request = Inr d \<Longrightarrow> Employees_validate False d = Inr v \<Longrightarrow>
   EmployeesList_post tbl request
     = (Response (Employees_representation (last_id tbl + 1, Employees_create v)) 201,
        tbl\<lparr>rows := (rows tbl)(last_id tbl + 1 \<mapsto> Employees_create v),
            last_id := last_id tbl + 1\<rparr>)"
  by (simp add: EmployeesList_post_def CreateModelMixin_create_def EmployeesSerializer_def
      objects_create_def Let_def)

lemma retrieve_found:
  "rows tbl k = Some e \<Longrightarrow>
   EmployeesManipulation_get tbl request k = (Response (Employees_representation (k, e)) 200, tbl)"
  by (simp add: EmployeesManipulation_get_def RetrieveModelMixin_retrieve_def
      EmployeesSerializer_def)

lemma str_field_value:
  "str_field b (Some x) = Inr vn \<Longrightarrow> \<exists>s. x = JStr s \<and> vn = Some s"
  by (cases x) auto

lemma int_field_value:
  "int_field b (Some x) = Inr vn \<Longrightarrow> \<exists>i. x = JInt i \<and> vn = Some i"
  by (cases x) auto

lemma Employees_validate_values:
  assumes "Employees_validate partial (JObj kvs) = Inr v"
  shows "(map_of kvs ''name'' = Some x \<longrightarrow> (\<exists>s. x = JStr s \<and> d_name v = Some s))
       \<and> (map_of kvs ''age'' = Some x \<longrightarrow> (\<exists>i. x = JInt i \<and> d_age v = Some i))
       \<and> (map_of kvs ''salary'' = Some x \<longrightarrow> (\<exists>i. x = JInt i \<and> d_salary v = Some i))"
proof -
  from assms have n: "str_field (\<not> partial) (map_of kvs ''name'') = Inr (d_name v)"
    and a: "int_field (\<not> partial) (map_of kvs ''age'') = Inr (d_age v)"
    and s: "int_field False (map_of kvs ''salary'') = Inr (d_salary v)"
    by (auto simp: Employees_validate_def Let_def split: sum.splits)
  show ?thesis
    using str_field_value[of "\<not> partial" x "d_name v"]
      int_field_value[of "\<not> partial" x "d_age v"]
      int_field_value[of False x "d_salary v"] n a s
    by auto
qed

section \<open>The dispatcher under its decorator\<close>















section \<open>Partial updates keep the fields that are not supplied\<close>

text \<open>
  Claim C1. For every partial update, by the manual PUT handler \<open>EmployeesWork\<close> (which
  validates with \<open>partial=True\<close>) and by PATCH on the generic item view, every row of the
  table after the request keeps each field the request payload does not supply: no row
  appears or disappears, the row the request addresses changes at most in the supplied
  fields, and every other row as well as the store's sequence is as before.
\<close>

theorem partial_update_keeps_unsupplied_fields:
  "rel_option (employee_kept request) (rows tbl i) (rows (snd (EmployeesWork tbl request)) i)
   \<and> last_id (snd (EmployeesWork tbl request)) = last_id tbl
   \<and> rel_option (Employees_kept request') (rows tbl' j)
        (rows (snd (EmployeesManipulation_patch tbl' request' pk)) j)
   \<and> last_id (snd (EmployeesManipulation_patch tbl' request' pk)) = last_id tbl'"
  using EmployeesWork_frame[of request tbl i] patch_frame[of request' tbl' j pk] by simp

lemma eval_update_city:
  "EmployeesWork
     \<lparr>rows = [1 \<mapsto> \<lparr>employee.name = ''Ann'', phone = ''555'', city = ''Oslo''\<rparr>], last_id = 1\<rparr>
     \<lparr>method = ''PUT'', query_params = [],
      parsed_body = Inr (JObj [(''id'', JInt 1), (''city'', JStr ''Rome'')])\<rparr>
   = (JsonResponse (JObj [msg ''Data Updated Successfully'']) 200,
      \<lparr>rows = [1 \<mapsto> \<lparr>employee.name = ''Ann'', phone = ''555'', city = ''Rome''\<rparr>], last_id = 1\<rparr>)"
  by (simp add: EmployeesWork_def EmployeesWork_try_def dict_get_def objects_get_def
      is_valid_def EmployeesSerializer_fields_def CharField_def char_value_def
      char_validators_def strip_def is_space_def EmployeesSerializer_update_def
      save_def get_or_def Let_def)

theorem partial_update_keeps_unsupplied_fields_witness:
  "(\<exists>r'. rows (snd (EmployeesWork
        \<lparr>rows = [1 \<mapsto> \<lparr>employee.name = ''Ann'', phone = ''555'', city = ''Oslo''\<rparr>],
         last_id = 1\<rparr>
        \<lparr>method = ''PUT'', query_params = [],
         parsed_body = Inr (JObj [(''id'', JInt 1), (''city'', JStr ''Rome'')])\<rparr>)) 1 = Some r'
      \<and> employee.name r' = ''Ann'' \<and> phone r' = ''555'' \<and> city r' = ''Rome'')
   \<and> (\<exists>r'. rows (snd (EmployeesManipulation_patch
        \<lparr>rows = [1 \<mapsto> \<lparr>name = ''Ann'', age = 30, salary = 50000\<rparr>], last_id = 1\<rparr>
        \<lparr>method = ''PATCH'', query_params = [],
         parsed_body = Inr (JObj [(''salary'', JInt 70000)])\<rparr> 1)) 1 = Some r'
      \<and> name r' = ''Ann'' \<and> age r' = 30 \<and> salary r' = 70000)"
proof -
  let ?t = "\<lparr>rows = [1 \<mapsto> \<lparr>employee.name = ''Ann'', phone = ''555'', city = ''Oslo''\<rparr>],
             last_id = 1\<rparr>"
  let ?r = "\<lparr>method = ''PUT'', query_params = [],
             parsed_body = Inr (JObj [(''id'', JInt 1), (''city'', JStr ''Rome'')])\<rparr>"
  let ?tg = "\<lparr>rows = [1 \<mapsto> \<lparr>name = ''Ann'', age = 30, salary = 50000\<rparr>], last_id = 1\<rparr>"
  let ?rg = "\<lparr>method = ''PATCH'', query_params = [],
              parsed_body = Inr (JObj [(''salary'', JInt 70000)])\<rparr>"
  note frame = partial_update_keeps_unsupplied_fields[of ?r ?t 1 ?rg ?tg 1 1]
  have a: "rel_option (employee_kept ?r) (Some \<lparr>employee.name = ''Ann'', phone = ''555'', city = ''Oslo''\<rparr>)
             (rows (snd (EmployeesWork ?t ?r)) 1)"
    using frame by simp
  then obtain r' where r': "rows (snd (EmployeesWork ?t ?r)) 1 = Some r'"
      "employee_kept ?r \<lparr>employee.name = ''Ann'', phone = ''555'', city = ''Oslo''\<rparr> r'"
    by (auto simp: option_rel_Some1)
  have c: "city r' = ''Rome''" using r'(1) by (auto simp add: eval_update_city)
  have "employee.name r' = ''Ann'' \<and> phone r' = ''555''"
    using r'(2) by (simp add: employee_kept_def supplied_def)
  then have A: "\<exists>r'. rows (snd (EmployeesWork ?t ?r)) 1 = Some r'
      \<and> employee.name r' = ''Ann'' \<and> phone r' = ''555'' \<and> city r' = ''Rome''"
    using r'(1) c by blast
  have b: "rel_option (Employees_kept ?rg) (Some \<lparr>name = ''Ann'', age = 30, salary = 50000\<rparr>)
             (rows (snd (EmployeesManipulation_patch ?tg ?rg 1)) 1)"
    using frame by simp
  then obtain g' where g': "rows (snd (EmployeesManipulation_patch ?tg ?rg 1)) 1 = Some g'"
      "Employees_kept ?rg \<lparr>name = ''Ann'', age = 30, salary = 50000\<rparr> g'"
    by (auto simp: option_rel_Some1)
  have s: "salary g' = 70000" using g'(1)
    by (auto simp add: EmployeesManipulation_patch_def UpdateModelMixin_partial_update_def
        UpdateModelMixin_update_def EmployeesSerializer_def Employees_validate_def
        Employees_update_def save_def Let_def)
  have "name g' = ''Ann'' \<and> age g' = 30"
    using g'(2) by (simp add: Employees_kept_def supplied_def)
  then have B: "\<exists>r'. rows (snd (EmployeesManipulation_patch ?tg ?rg 1)) 1 = Some r'
      \<and> name r' = ''Ann'' \<and> age r' = 30 \<and> salary r' = 70000"
    using g'(1) s by blast
  from A B show ?thesis by blast
qed

section \<open>The manual JSON update handler: error responses\<close>



section \<open>An id that identifies no record\<close>




section \<open>A create payload with a required field missing\<close>

text \<open>
  Claim C4, evaluated. A POST to \<open>student_list\<close> without the required field \<open>city\<close>
  creates no record and returns the field errors, but with status 200: the view builds
  the \<open>HttpResponse\<close> of the errors without a status. The same kind of payload sent to
  \<open>notesApi\<close> is answered with the field errors and status 400.
\<close>

theorem student_list_missing_field:
  "student_list StudentSerializer \<lparr>rows = Map.empty, last_id = 0\<rparr>
     \<lparr>method = ''POST'', query_params = [],
      parsed_body = Inr (JObj [(''name'', JStr ''John Doe''), (''roll'', JInt 123)])\<rparr>
   = Inr (\<lparr>content = Json (JObj [(''city'', JArr [JStr ''This field is required.''])]),
           status = 200\<rparr>,
          \<lparr>rows = Map.empty, last_id = 0\<rparr>)
   \<and> notesApi (NotesSerializer ''2024-01-01'') \<lparr>rows = Map.empty, last_id = 0\<rparr>
     \<lparr>method = ''POST'', query_params = [],
      parsed_body = Inr (JObj [(''completed'', JBool False)])\<rparr> None
   = Inr (Some \<lparr>content = Json (JObj [(''error'',
                     JObj [(''title'', JArr [JStr ''This field is required.''])]),
                   (''msg'', JStr ''Data insertion unsuccessfull'')]),
                status = 400\<rparr>,
          \<lparr>rows = Map.empty, last_id = 0\<rparr>)"
  by (simp add: student_list_def notesApi_def StudentSerializer_def Student_validate_def
      NotesSerializer_def Notes_validate_def field_error_def HttpResponse_def
      JSONRenderer_render_def Response_def msg_def)

section \<open>What a successful create answers\<close>

text \<open>
  Claim C5, as amended. For every successful POST: the generic list view
  (\<open>EmployeesList.post\<close>) answers 201 with the created DTO, which includes the identity
  the store assigned to the new record; \<open>notesApi\<close> and \<open>student_list\<close> create the
  record and answer 200 with a confirmation message only (``Data is inserted
  successfully'', ``Data inserted Successfully'').
\<close>

theorem create_responses:
  assumes "method request = ''POST''" and "parsed_body request = Inr d"
  shows "(validate ser d = Inr v \<longrightarrow>
            notesApi ser tbl request path_id
              = Inr (Some (Response (JObj [msg ''Data is inserted successfully'']) 200),
                     snd (objects_create (create ser v) tbl)))
       \<and> (validate ser' d = Inr v' \<longrightarrow>
            student_list ser' stbl request
              = Inr (HttpResponse (Json (JObj [msg ''Data inserted Successfully''])) 200,
                     snd (objects_create (create ser' v') stbl)))
       \<and> (Employees_validate False d = Inr ev \<longrightarrow>
            EmployeesList_post etbl request
              = (Response
                   (JObj [(''id'', JInt (last_id etbl + 1)),
                          (''name'', JStr (name (Employees_create ev))),
                          (''age'', JInt (age (Employees_create ev))),
                          (''salary'', JInt (salary (Employees_create ev)))]) 201,
                 etbl\<lparr>rows := (rows etbl)(last_id etbl + 1 \<mapsto> Employees_create ev),
                      last_id := last_id etbl + 1\<rparr>))"
  using assms by (simp add: notes_post student_post list_post Employees_representation_def)

theorem create_responses_witness:
  "notesApi (NotesSerializer ''2024-01-01'') \<lparr>rows = Map.empty, last_id = 0\<rparr>
     \<lparr>method = ''POST'', query_params = [],
      parsed_body = Inr (JObj [(''title'', JStr ''x''), (''completed'', JBool False)])\<rparr> None
   = Inr (Some (Response (JObj [msg ''Data is inserted successfully'']) 200),
          \<lparr>rows = [1 \<mapsto> \<lparr>title = ''x'', completed = False, created_at = ''2024-01-01''\<rparr>],
           last_id = 1\<rparr>)
   \<and> student_list StudentSerializer \<lparr>rows = Map.empty, last_id = 0\<rparr>
     \<lparr>method = ''POST'', query_params = [],
      parsed_body = Inr (JObj [(''name'', JStr ''John Doe''), (''roll'', JInt 123),
                               (''city'', JStr ''New York'')])\<rparr>
   = Inr (HttpResponse (Json (JObj [msg ''Data inserted Successfully''])) 200,
          \<lparr>rows = [1 \<mapsto> (''John Doe'', 123, ''New York'')], last_id = 1\<rparr>)
   \<and> EmployeesList_post \<lparr>rows = Map.empty, last_id = 0\<rparr>
     \<lparr>method = ''POST'', query_params = [],
      parsed_body = Inr (JObj [(''name'', JStr ''Ann''), (''age'', JInt 30),
                               (''salary'', JInt 50000)])\<rparr>
   = (Response (JObj [(''id'', JInt 1), (''name'', JStr ''Ann''), (''age'', JInt 30),
                      (''salary'', JInt 50000)]) 201,
      \<lparr>rows = [1 \<mapsto> \<lparr>name = ''Ann'', age = 30, salary = 50000\<rparr>], last_id = 1\<rparr>)"
proof -
  let ?n = "\<lparr>method = ''POST'', query_params = [],
      parsed_body = Inr (JObj [(''title'', JStr ''x''), (''completed'', JBool False)])\<rparr>"
  let ?s = "\<lparr>method = ''POST'', query_params = [],
      parsed_body = Inr (JObj [(''name'', JStr ''John Doe''), (''roll'', JInt 123),
                               (''city'', JStr ''New York'')])\<rparr>"
  let ?e = "\<lparr>method = ''POST'', query_params = [],
      parsed_body = Inr (JObj [(''name'', JStr ''Ann''), (''age'', JInt 30),
                               (''salary'', JInt 50000)])\<rparr>"
  have mn: "method ?n = ''POST''" and ms: "method ?s = ''POST''" and me: "method ?e = ''POST''"
    by simp_all
  have pn: "parsed_body ?n = Inr (JObj [(''title'', JStr ''x''), (''completed'', JBool False)])"
    by simp
  have ps: "parsed_body ?s = Inr (JObj [(''name'', JStr ''John Doe''), (''roll'', JInt 123),
                               (''city'', JStr ''New York'')])"
    by simp
  have pe: "parsed_body ?e = Inr (JObj [(''name'', JStr ''Ann''), (''age'', JInt 30),
                               (''salary'', JInt 50000)])"
    by simp
  have a: "notesApi (NotesSerializer ''2024-01-01'') \<lparr>rows = Map.empty, last_id = 0\<rparr> ?n None
     = Inr (Some (Response (JObj [msg ''Data is inserted successfully'']) 200),
          \<lparr>rows = [1 \<mapsto> \<lparr>title = ''x'', completed = False, created_at = ''2024-01-01''\<rparr>],
           last_id = 1\<rparr>)"
    using create_responses[OF mn pn, where ser = "NotesSerializer ''2024-01-01''"
        and v = "(''x'', False)" and tbl = "\<lparr>rows = Map.empty, last_id = 0\<rparr>"
        and path_id = None, THEN conjunct1]
    by (simp add: NotesSerializer_def Notes_validate_def objects_create_def)
  have b: "student_list StudentSerializer \<lparr>rows = Map.empty, last_id = 0\<rparr> ?s
     = Inr (HttpResponse (Json (JObj [msg ''Data inserted Successfully''])) 200,
          \<lparr>rows = [1 \<mapsto> (''John Doe'', 123, ''New York'')], last_id = 1\<rparr>)"
    using create_responses[OF ms ps, where ser' = StudentSerializer
        and v' = "(''John Doe'', 123, ''New York'')"
        and stbl = "\<lparr>rows = Map.empty, last_id = 0\<rparr>", THEN conjunct2, THEN conjunct1]
    by (simp add: StudentSerializer_def Student_validate_def objects_create_def)
  have c: "EmployeesList_post \<lparr>rows = Map.empty, last_id = 0\<rparr> ?e
     = (Response (JObj [(''id'', JInt 1), (''name'', JStr ''Ann''), (''age'', JInt 30),
                      (''salary'', JInt 50000)]) 201,
      \<lparr>rows = [1 \<mapsto> \<lparr>name = ''Ann'', age = 30, salary = 50000\<rparr>], last_id = 1\<rparr>)"
    using create_responses[OF me pe,
        where ev = "\<lparr>d_name = Some ''Ann'', d_age = Some 30, d_salary = Some 50000\<rparr>"
        and etbl = "\<lparr>rows = Map.empty, last_id = 0\<rparr>", THEN conjunct2, THEN conjunct2]
    by (simp add: Employees_validate_def Employees_create_def)
  from a b c show ?thesis by simp
qed

text \<open>
  Claim C5 as stated fails for \<open>notesApi\<close>: a valid note is created under the identity 1
  and the response body is the message, with no DTO and no id.
\<close>

theorem notes_post_body_counterexample:
  "notesApi (NotesSerializer ''2024-01-01'') \<lparr>rows = Map.empty, last_id = 0\<rparr>
     \<lparr>method = ''POST'', query_params = [],
      parsed_body = Inr (JObj [(''title'', JStr ''milk''), (''completed'', JBool False)])\<rparr> None
   = Inr (Some \<lparr>content = Json (JObj [(''msg'', JStr ''Data is inserted successfully'')]),
                status = 200\<rparr>,
          \<lparr>rows = [1 \<mapsto> \<lparr>title = ''milk'', completed = False, created_at = ''2024-01-01''\<rparr>],
           last_id = 1\<rparr>)"
  by (simp add: notesApi_def NotesSerializer_def Notes_validate_def objects_create_def
      Response_def msg_def)

section \<open>Where the dispatcher takes the id from, and its status codes\<close>




section \<open>Create, then retrieve\<close>

text \<open>
  Claim C7. For every valid create payload, the POST on the generic list view answers 201
  with a DTO carrying the assigned identity, and the GET on the item view with that
  identity, on the table the POST leaves, answers 200 with the same DTO, in which every
  field of name, age and salary that the payload supplies has the payload's value.
\<close>

theorem create_then_retrieve:
  assumes "parsed_body request = Inr (JObj kvs)"
    and "Employees_validate False (JObj kvs) = Inr v"
  shows "\<exists>new_id dto tbl'.
           EmployeesList_post tbl request = (Response dto 201, tbl')
         \<and> dict_get dto ''id'' JNull = Inr (JInt new_id)
         \<and> EmployeesManipulation_get tbl' request' new_id = (Response dto 200, tbl')
         \<and> (\<forall>f x. (f = ''name'' \<or> f = ''age'' \<or> f = ''salary'') \<and> map_of kvs f = Some x
                \<longrightarrow> dict_get dto f JNull = Inr x)"
proof -
  let ?new = "last_id tbl + 1"
  let ?row = "Employees_create v"
  let ?dto = "Employees_representation (?new, ?row)"
  let ?tbl' = "tbl\<lparr>rows := (rows tbl)(?new \<mapsto> ?row), last_id := ?new\<rparr>"
  have post: "EmployeesList_post tbl request = (Response ?dto 201, ?tbl')"
    using assms by (simp add: list_post)
  have ident: "dict_get ?dto ''id'' JNull = Inr (JInt ?new)"
    by (simp add: Employees_representation_def dict_get_def)
  have get: "EmployeesManipulation_get ?tbl' request' ?new = (Response ?dto 200, ?tbl')"
    by (simp add: retrieve_found)
  have fields: "dict_get ?dto f JNull = Inr x"
    if "f = ''name'' \<or> f = ''age'' \<or> f = ''salary''" "map_of kvs f = Some x" for f x
    using that Employees_validate_values[OF assms(2), of x]
    by (auto simp: Employees_representation_def dict_get_def Employees_create_def)
  from post ident get fields show ?thesis by blast
qed

theorem create_then_retrieve_witness:
  "\<exists>new_id dto tbl'.
     EmployeesList_post \<lparr>rows = Map.empty, last_id = 0\<rparr>
       \<lparr>method = ''POST'', query_params = [],
        parsed_body = Inr (JObj [(''name'', JStr ''Ann''), (''age'', JInt 30),
                                 (''salary'', JInt 50000)])\<rparr>
       = (Response dto 201, tbl')
   \<and> dict_get dto ''id'' JNull = Inr (JInt new_id)
   \<and> EmployeesManipulation_get tbl'
       \<lparr>method = ''GET'', query_params = [], parsed_body = Inr (JObj [])\<rparr> new_id
       = (Response dto 200, tbl')
   \<and> dict_get dto ''name'' JNull = Inr (JStr ''Ann'')
   \<and> dict_get dto ''age'' JNull = Inr (JInt 30)
   \<and> dict_get dto ''salary'' JNull = Inr (JInt 50000)"
proof -
  let ?kvs = "[(''name'', JStr ''Ann''), (''age'', JInt 30), (''salary'', JInt 50000)]"
  let ?r = "\<lparr>method = ''POST'', query_params = [], parsed_body = Inr (JObj ?kvs)\<rparr>"
  let ?g = "\<lparr>method = ''GET'', query_params = [], parsed_body = Inr (JObj [])\<rparr>"
  have p: "parsed_body ?r = Inr (JObj ?kvs)" by simp
  have v: "Employees_validate False (JObj ?kvs)
             = Inr \<lparr>d_name = Some ''Ann'', d_age = Some 30, d_salary = Some 50000\<rparr>"
    by (simp add: Employees_validate_def)
  from create_then_retrieve[OF p v, of "\<lparr>rows = Map.empty, last_id = 0\<rparr>" ?g]
  obtain new_id dto tbl' where
    1: "EmployeesList_post \<lparr>rows = Map.empty, last_id = 0\<rparr> ?r = (Response dto 201, tbl')"
    and 2: "dict_get dto ''id'' JNull = Inr (JInt new_id)"
    and 3: "EmployeesManipulation_get tbl' ?g new_id = (Response dto 200, tbl')"
    and 4: "\<And>f x. (f = ''name'' \<or> f = ''age'' \<or> f = ''salary'') \<and> map_of ?kvs f = Some x
                \<Longrightarrow> dict_get dto f JNull = Inr x"
    by blast
  have "dict_get dto ''name'' JNull = Inr (JStr ''Ann'')"
    and "dict_get dto ''age'' JNull = Inr (JInt 30)"
    and "dict_get dto ''salary'' JNull = Inr (JInt 50000)"
    using 4[of "''name''" "JStr ''Ann''"] 4[of "''age''" "JInt 30"]
      4[of "''salary''" "JInt 50000"] by simp_all
  with 1 2 3 show ?thesis by blast
qed

section \<open>Retrieval after a delete\<close>




section \<open>The manual JSON update handler: a falsy id\<close>

text \<open>
  Claim C9, as amended. The missing-id check of \<open>EmployeesWork\<close> is a truth test: for every
  PUT body in which \<open>id\<close> is present with a falsy value (0, the empty string, null, false)
  the response is the 400 ``ID is required for update'' and the table is unchanged. A
  request that does change the row whose identity is 0 carries an \<open>id\<close> that is truthy
  and that the store coerces to 0.
\<close>

theorem EmployeesWork_falsy_id:
  assumes "method request = ''PUT''"
    and "parsed_body request = Inr (JObj kvs)"
    and "map_of kvs ''id'' = Some v"
    and "\<not> truthy v"
  shows "EmployeesWork tbl request
           = (JsonResponse (JObj [msg ''ID is required for update'']) 400, tbl)
       \<and> (\<forall>tbl' request'.
            rows (snd (EmployeesWork tbl' request')) 0 \<noteq> rows tbl' 0 \<longrightarrow>
            (\<exists>kvs' v'. parsed_body request' = Inr (JObj kvs')
                \<and> map_of kvs' ''id'' = Some v' \<and> truthy v' \<and> as_pk v' = Inr 0))"
proof -
  have "\<not> truthy (id_of kvs)" using assms(3,4) by (simp add: id_of_def)
  then have A: "EmployeesWork tbl request
           = (JsonResponse (JObj [msg ''ID is required for update'']) 400, tbl)"
    using assms(1,2) by (simp add: EmployeesWork_put try_falsy)
  have B: "\<exists>kvs' v'. parsed_body request' = Inr (JObj kvs')
                \<and> map_of kvs' ''id'' = Some v' \<and> truthy v' \<and> as_pk v' = Inr 0"
    if ch: "rows (snd (EmployeesWork tbl' request')) 0 \<noteq> rows tbl' 0"
    for tbl' :: "'b employee_scheme table" and request'
  proof -
    from ch have "snd (EmployeesWork tbl' request') \<noteq> tbl'" by auto
    then obtain kvs' n r vd where u: "parsed_body request' = Inr (JObj kvs')"
        "truthy (id_of kvs')" "as_pk (id_of kvs') = Inr n" "rows tbl' n = Some r"
        "snd (EmployeesWork tbl' request') = snd (EmployeesSerializer_update (n, r) vd tbl')"
      using EmployeesWork_cases[of tbl' request'] by fastforce
    have n: "n = 0" using ch u(5) by (auto simp: update_rows split: if_splits)
    have "map_of kvs' ''id'' = Some (id_of kvs')"
      using u(2) by (auto simp: id_of_def split: option.splits)
    then show ?thesis using u(1,2,3) n by blast
  qed
  from A B show ?thesis by blast
qed

lemma eval_update_zero:
  "EmployeesWork
     \<lparr>rows = [0 \<mapsto> \<lparr>employee.name = ''Zed'', phone = ''1'', city = ''Rome''\<rparr>], last_id = 0\<rparr>
     \<lparr>method = ''PUT'', query_params = [],
      parsed_body = Inr (JObj [(''id'', JStr ''0''), (''name'', JStr ''Ann'')])\<rparr>
   = (JsonResponse (JObj [msg ''Data Updated Successfully'']) 200,
      \<lparr>rows = [0 \<mapsto> \<lparr>employee.name = ''Ann'', phone = ''1'', city = ''Rome''\<rparr>], last_id = 0\<rparr>)"
  by (simp add: EmployeesWork_def EmployeesWork_try_def dict_get_def objects_get_def
      py_int_def digit_val_def
      is_valid_def EmployeesSerializer_fields_def CharField_def char_value_def
      char_validators_def strip_def is_space_def EmployeesSerializer_update_def
      save_def get_or_def Let_def)

theorem EmployeesWork_falsy_id_witness:
  "EmployeesWork (\<lparr>rows = Map.empty, last_id = 0\<rparr> :: employee table)
     \<lparr>method = ''PUT'', query_params = [],
      parsed_body = Inr (JObj [(''id'', JInt 0), (''name'', JStr ''Ann'')])\<rparr>
     = (JsonResponse (JObj [msg ''ID is required for update'']) 400,
        \<lparr>rows = Map.empty, last_id = 0\<rparr>)
   \<and> EmployeesWork (\<lparr>rows = Map.empty, last_id = 0\<rparr> :: employee table)
     \<lparr>method = ''PUT'', query_params = [],
      parsed_body = Inr (JObj [(''id'', JStr []), (''name'', JStr ''Ann'')])\<rparr>
     = (JsonResponse (JObj [msg ''ID is required for update'']) 400,
        \<lparr>rows = Map.empty, last_id = 0\<rparr>)
   \<and> EmployeesWork (\<lparr>rows = Map.empty, last_id = 0\<rparr> :: employee table)
     \<lparr>method = ''PUT'', query_params = [],
      parsed_body = Inr (JObj [(''id'', JNull), (''name'', JStr ''Ann'')])\<rparr>
     = (JsonResponse (JObj [msg ''ID is required for update'']) 400,
        \<lparr>rows = Map.empty, last_id = 0\<rparr>)"
proof -
  let ?t = "\<lparr>rows = Map.empty, last_id = 0\<rparr> :: employee table"
  have a: "EmployeesWork ?t \<lparr>method = ''PUT'', query_params = [],
         parsed_body = Inr (JObj [(''id'', JInt 0), (''name'', JStr ''Ann'')])\<rparr>
       = (JsonResponse (JObj [msg ''ID is required for update'']) 400, ?t)"
    by (rule EmployeesWork_falsy_id[of "\<lparr>method = ''PUT'', query_params = [],
         parsed_body = Inr (JObj [(''id'', JInt 0), (''name'', JStr ''Ann'')])\<rparr>"
         "[(''id'', JInt 0), (''name'', JStr ''Ann'')]" "JInt 0" ?t, THEN conjunct1]) simp_all
  have b: "EmployeesWork ?t \<lparr>method = ''PUT'', query_params = [],
         parsed_body = Inr (JObj [(''id'', JStr []), (''name'', JStr ''Ann'')])\<rparr>
       = (JsonResponse (JObj [msg ''ID is required for update'']) 400, ?t)"
    by (rule EmployeesWork_falsy_id[of "\<lparr>method = ''PUT'', query_params = [],
         parsed_body = Inr (JObj [(''id'', JStr []), (''name'', JStr ''Ann'')])\<rparr>"
         "[(''id'', JStr []), (''name'', JStr ''Ann'')]" "JStr []" ?t, THEN conjunct1]) simp_all
  have c: "EmployeesWork ?t \<lparr>method = ''PUT'', query_params = [],
         parsed_body = Inr (JObj [(''id'', JNull), (''name'', JStr ''Ann'')])\<rparr>
       = (JsonResponse (JObj [msg ''ID is required for update'']) 400, ?t)"
    by (rule EmployeesWork_falsy_id[of "\<lparr>method = ''PUT'', query_params = [],
         parsed_body = Inr (JObj [(''id'', JNull), (''name'', JStr ''Ann'')])\<rparr>"
         "[(''id'', JNull), (''name'', JStr ''Ann'')]" JNull ?t, THEN conjunct1]) simp_all
  from a b c show ?thesis by simp
qed

text \<open>
  Claim C9 as stated fails in its consequence: the record whose identity is 0 is updated
  by a body whose \<open>id\<close> is the string \<open>"0"\<close>, which is truthy.
\<close>

theorem EmployeesWork_id_string_zero_counterexample:
  "rows (snd (EmployeesWork
     \<lparr>rows = [0 \<mapsto> \<lparr>employee.name = ''Zed'', phone = ''1'', city = ''Rome''\<rparr>], last_id = 0\<rparr>
     \<lparr>method = ''PUT'', query_params = [],
      parsed_body = Inr (JObj [(''id'', JStr ''0''), (''name'', JStr ''Ann'')])\<rparr>)) 0
   = Some \<lparr>employee.name = ''Ann'', phone = ''1'', city = ''Rome''\<rparr>"
  by (simp add: eval_update_zero)
section \<open>The query parameter before the path segment\<close>



end
